theory Spec2Isabelle
  imports Complex_Main
begin

section \<open>Strings and the built-in string operations the engine calls\<close>

text \<open>
  A JavaScript string is modelled as a \<^typ>\<open>string\<close>: a list of code units below 256.
  On such strings \<open>encodeURIComponent\<close> is total (it only throws on lone surrogates),
  \<open>String.prototype.slice\<close> with constant non-negative bounds is \<open>take\<close> after
  \<open>drop\<close>, and a global regular-expression \<open>replace\<close> by the empty string is a filter.
\<close>

definition is_digit :: "char \<Rightarrow> bool" where
  "is_digit c = (c \<in> set ''0123456789'')"

text \<open>\<open>s.slice(i, j)\<close> for constants \<open>0 \<le> i \<le> j\<close>.\<close>

definition slice :: "nat \<Rightarrow> nat \<Rightarrow> string \<Rightarrow> string" where
  "slice i j s = take (j - i) (drop i s)"

text \<open>
  \<open>s.replace(pat, rep)\<close> with a string pattern: only the first occurrence of \<open>pat\<close> is
  replaced. The replacement is inserted literally, which agrees with JavaScript whenever
  \<open>rep\<close> holds no dollar sign (see \<open>encodeURIComponent_no_dollar\<close> below).
\<close>

fun replace_first :: "string \<Rightarrow> string \<Rightarrow> string \<Rightarrow> string" where
  "replace_first pat rep [] = (if pat = [] then rep else [])"
| "replace_first pat rep (c # cs) =
     (if take (length pat) (c # cs) = pat then rep @ drop (length pat) (c # cs)
      else c # replace_first pat rep cs)"

definition hex_digit :: "nat \<Rightarrow> char" where
  "hex_digit n = ''0123456789ABCDEF'' ! (n mod 16)"

definition pct_byte :: "nat \<Rightarrow> string" where
  "pct_byte n = [CHR ''%'', hex_digit (n div 16), hex_digit n]"

text \<open>The characters \<open>encodeURIComponent\<close> leaves alone: letters, digits and \<open>- _ . ! ~ * ' ( )\<close>.\<close>

definition uri_unreserved :: "char \<Rightarrow> bool" where
  "uri_unreserved c =
     (c \<in> set ''ABCDEFGHIJKLMNOPQRSTUVWXYZabcdefghijklmnopqrstuvwxyz0123456789-_.!~*()''
      \<or> c = CHR 0x27)"

text \<open>
  Every other code unit is written as the percent-encoded bytes of its UTF-8 form: one byte
  below 128, two bytes from 128 to 255.
\<close>

definition encode_char :: "char \<Rightarrow> string" where
  "encode_char c =
     (if uri_unreserved c then [c]
      else if (of_char c :: nat) < 128 then pct_byte (of_char c)
      else pct_byte (192 + of_char c div 64) @ pct_byte (128 + of_char c mod 64))"

definition encodeURIComponent :: "string \<Rightarrow> string" where
  "encodeURIComponent s = concat (map encode_char s)"

section \<open>PII masking and URL templating\<close>

text \<open>
  \<^verbatim>\<open>
  export function maskCpf(cpf: string): string {
    const digits = cpf.replace(/\D/g, '');
    if (digits.length < 11) return '***.***.***-**';
    return `${digits.slice(0, 3)}.***.***.${digits.slice(9, 11)}`;
  }
  \<close>
\<close>

definition maskCpf :: "string \<Rightarrow> string" where
  "maskCpf cpf =
     (let digits = filter is_digit cpf in
      if length digits < 11 then ''***.***.***-**''
      else slice 0 3 digits @ ''.***.***.'' @ slice 9 11 digits)"

text \<open>
  \<^verbatim>\<open>
  export function sanitizeUrl(baseUrl: string, params: Record<string, string>): string {
    let url = baseUrl;
    for (const [key, value] of Object.entries(params)) {
      const sanitizedValue = key === 'cpf' ? value.replace(/[.\-]/g, '') : value;
      url = url.replace(`{${key}}`, encodeURIComponent(sanitizedValue));
    }
    return url;
  }
  \<close>
  The parameter object is the list of its entries, in the order \<open>Object.entries\<close>
  yields them.
\<close>

definition sanitize_value :: "string \<Rightarrow> string \<Rightarrow> string" where
  "sanitize_value key v =
     (if key = ''cpf'' then filter (\<lambda>c. c \<noteq> CHR ''.'' \<and> c \<noteq> CHR ''-'') v else v)"

fun sanitizeUrl :: "string \<Rightarrow> (string \<times> string) list \<Rightarrow> string" where
  "sanitizeUrl url [] = url"
| "sanitizeUrl url ((key, v) # params) =
     sanitizeUrl
       (replace_first (''{'' @ key @ ''}'') (encodeURIComponent (sanitize_value key v)) url)
       params"

section \<open>JavaScript values and the runtime\<close>

text \<open>
  The values the engine handles: \<open>undefined\<close>, what a parsed JSON body and a rule's
  configured \<open>validation.value\<close> can be, and the functions and objects of the runtime
  itself (a built-in prototype, constructor or method), which a member read can return
  although no JSON text denotes one; \<open>JBuiltin\<close> names them by a number. A number is the
  real it denotes. An object is the list of its own entries, each key once.
\<close>

datatype jsval =
    JUndefined
  | JNull
  | JBool bool
  | JNum real
  | JStr string
  | JArr "jsval list"
  | JObj "(string \<times> jsval) list"
  | JBuiltin nat

text \<open>
  The built-in prototypes are not part of the sources, so what they hold is a parameter of
  the model: \<open>inherited rt v key\<close> is what \<open>v[key]\<close> yields when \<open>key\<close> is not an own
  member of \<open>v\<close> (\<open>undefined\<close> when no prototype of \<open>v\<close> has the member either), and
  \<open>to_text rt v\<close> is \<open>String(v)\<close> for a \<open>v\<close> that is not a string. Every theorem below
  holds for every such runtime. Reading a member yields a value here: an accessor whose
  getter throws is outside the model.
\<close>

record runtime =
  inherited :: "jsval \<Rightarrow> string \<Rightarrow> jsval"
  to_text :: "jsval \<Rightarrow> string"

text \<open>Truthiness, as \<open>&&\<close>, \<open>||\<close> and \<open>if\<close> test it.\<close>

fun js_truthy :: "jsval \<Rightarrow> bool" where
  "js_truthy JUndefined = False"
| "js_truthy JNull = False"
| "js_truthy (JBool b) = b"
| "js_truthy (JNum n) = (n \<noteq> 0)"
| "js_truthy (JStr s) = (s \<noteq> [])"
| "js_truthy (JArr xs) = True"
| "js_truthy (JObj kvs) = True"
| "js_truthy (JBuiltin n) = True"

text \<open>
  Strict equality \<open>===\<close> between a value read from a freshly parsed body and a configured
  value: primitives compare by type and value; an object or array of the body, or a
  built-in, is never the same reference as a value of the configuration.
\<close>

fun strict_eq :: "jsval \<Rightarrow> jsval \<Rightarrow> bool" where
  "strict_eq JUndefined JUndefined = True"
| "strict_eq JNull JNull = True"
| "strict_eq (JBool a) (JBool b) = (a = b)"
| "strict_eq (JNum a) (JNum b) = (a = b)"
| "strict_eq (JStr a) (JStr b) = (a = b)"
| "strict_eq _ _ = False"

text \<open>
  Conversion to a string inside a template literal throws a \<open>TypeError\<close> on an object whose
  own \<open>toString\<close> entry shadows the inherited function (a JSON value is never callable),
  and on an array that holds such an object. Primitives and the built-in functions and
  prototypes convert.
\<close>

fun js_tostring_throws :: "jsval \<Rightarrow> bool" where
  "js_tostring_throws (JObj kvs) = (''toString'' \<in> set (map fst kvs))"
| "js_tostring_throws (JArr xs) = list_ex js_tostring_throws xs"
| "js_tostring_throws _ = False"

text \<open>\<open>String(v)\<close>.\<close>

definition js_String :: "runtime \<Rightarrow> jsval \<Rightarrow> string" where
  "js_String rt v = (case v of JStr s \<Rightarrow> s | _ \<Rightarrow> to_text rt v)"

definition is_array_index :: "string \<Rightarrow> bool" where
  "is_array_index k = (k \<noteq> [] \<and> filter is_digit k = k \<and> (k = ''0'' \<or> hd k \<noteq> CHR ''0''))"

definition index_of :: "string \<Rightarrow> nat" where
  "index_of k = foldl (\<lambda>n c. 10 * n + (of_char c - 48)) 0 k"

text \<open>
  The own members of a value: the entries of an object (also one named \<open>__proto__\<close> or
  \<open>constructor\<close>, which \<open>JSON.parse\<close> creates as plain entries), the elements and the
  \<open>length\<close> of an array or string. Booleans, numbers and built-ins have none in the model:
  all their members come from the runtime.
\<close>

fun own_member :: "jsval \<Rightarrow> string \<Rightarrow> jsval option" where
  "own_member (JObj kvs) key = map_of kvs key"
| "own_member (JArr xs) key =
     (if key = ''length'' then Some (JNum (real (length xs)))
      else if is_array_index key \<and> index_of key < length xs then Some (xs ! index_of key)
      else None)"
| "own_member (JStr s) key =
     (if key = ''length'' then Some (JNum (real (length s)))
      else if is_array_index key \<and> index_of key < length s then Some (JStr [s ! index_of key])
      else None)"
| "own_member _ key = None"

text \<open>
  Member access \<open>current[key]\<close> on a value that is neither \<open>undefined\<close> nor \<open>null\<close>: the
  own member when there is one, else what the prototypes of the runtime hold.
\<close>

definition js_get :: "runtime \<Rightarrow> jsval \<Rightarrow> string \<Rightarrow> jsval" where
  "js_get rt v key = (case own_member v key of Some x \<Rightarrow> x | None \<Rightarrow> inherited rt v key)"

text \<open>\<open>s.split(d)\<close> for a one-character separator: never empty, \<open>''.split('.')\<close> is \<open>['']\<close>.\<close>

fun split_on :: "char \<Rightarrow> string \<Rightarrow> string list" where
  "split_on d [] = [[]]"
| "split_on d (c # cs) =
     (if c = d then [] # split_on d cs
      else (case split_on d cs of [] \<Rightarrow> [[c]] | w # ws \<Rightarrow> (c # w) # ws))"

text \<open>
  Property assignment \<open>obj[k] = v\<close> and object spread \<open>{...a, ...b}\<close> on the entry list of
  an object whose entry order matters (the parameter map, the headers).
\<close>

fun obj_set :: "string \<Rightarrow> 'a \<Rightarrow> (string \<times> 'a) list \<Rightarrow> (string \<times> 'a) list" where
  "obj_set k v [] = [(k, v)]"
| "obj_set k v ((k', v') # kvs) =
     (if k = k' then (k, v) # kvs else (k', v') # obj_set k v kvs)"

definition obj_spread :: "(string \<times> 'a) list \<Rightarrow> (string \<times> 'a) list \<Rightarrow> (string \<times> 'a) list" where
  "obj_spread a b = foldl (\<lambda>acc (k, v). obj_set k v acc) a b"

text \<open>
  The object that collects extracted fields is the map of its own entries: their order is
  not part of it. The assignment \<open>extracted[k] = v\<close> creates or overwrites the entry \<open>k\<close>,
  except for the name \<open>__proto__\<close>: that assignment reaches the accessor of
  \<open>Object.prototype\<close> and stores no entry (the prototype it can install on \<open>extracted\<close>
  is not part of the map).
\<close>

definition js_assign :: "string \<Rightarrow> jsval \<Rightarrow> (string \<rightharpoonup> jsval) \<Rightarrow> (string \<rightharpoonup> jsval)" where
  "js_assign k v m = (if k = ''__proto__'' then m else m(k \<mapsto> v))"

text \<open>\<open>s || d\<close> on an optional string: the default replaces both \<open>undefined\<close> and \<open>''\<close>.\<close>

definition str_or :: "string option \<Rightarrow> string \<Rightarrow> string" where
  "str_or s d = (case s of None \<Rightarrow> d | Some v \<Rightarrow> if v = [] then d else v)"

section \<open>Path lookup and field extraction\<close>

text \<open>
  \<^verbatim>\<open>
  function getNestedValue(obj: any, path: string): any {
    return path.split('.').reduce((current, key) => {
      return current !== undefined && current !== null ? current[key] : undefined;
    }, obj);
  }
  \<close>
\<close>

definition getNestedValue :: "runtime \<Rightarrow> jsval \<Rightarrow> string \<Rightarrow> jsval" where
  "getNestedValue rt obj path =
     foldl (\<lambda>current key.
              if current \<noteq> JUndefined \<and> current \<noteq> JNull then js_get rt current key
              else JUndefined)
       obj (split_on CHR ''.'' path)"

text \<open>
  A path stays within own members when every step that reads a member finds an own one;
  its value then does not depend on the runtime.
\<close>

fun own_path :: "jsval \<Rightarrow> string list \<Rightarrow> bool" where
  "own_path v [] = True"
| "own_path v (key # keys) =
     (if v = JUndefined \<or> v = JNull then True
      else (case own_member v key of None \<Rightarrow> False | Some x \<Rightarrow> own_path x keys))"

text \<open>
  \<^verbatim>\<open>
  function extractFields(data: any, fields: string[]): Record<string, any> {
    const extracted: Record<string, any> = {};
    for (const field of fields) {
      const value = getNestedValue(data, field);
      if (value !== undefined) {
        extracted[field] = value;
      }
    }
    return extracted;
  }
  \<close>
\<close>

definition extractFields :: "runtime \<Rightarrow> jsval \<Rightarrow> string list \<Rightarrow> (string \<rightharpoonup> jsval)" where
  "extractFields rt data field_names =
     foldl (\<lambda>extracted field.
              let v = getNestedValue rt data field in
              if v \<noteq> JUndefined then js_assign field v extracted else extracted)
       Map.empty field_names"

section \<open>The data model\<close>

record AthleteData =
  cpf :: string
  nome :: string
  email :: "string option"
  dataNascimento :: "string option"
  sexo :: "string option"

text \<open>
  The own fields of the athlete object; \<open>None\<close> is a field that is \<open>undefined\<close>, \<open>null\<close>
  or left out.
\<close>

definition athlete_field :: "AthleteData \<Rightarrow> string \<Rightarrow> string option" where
  "athlete_field a p =
     (if p = ''cpf'' then Some (cpf a)
      else if p = ''nome'' then Some (nome a)
      else if p = ''email'' then email a
      else if p = ''dataNascimento'' then dataNascimento a
      else if p = ''sexo'' then sexo a
      else None)"

definition athlete_object :: "AthleteData \<Rightarrow> jsval" where
  "athlete_object a =
     JObj ([(''cpf'', JStr (cpf a)), (''nome'', JStr (nome a))]
           @ (case email a of None \<Rightarrow> [] | Some v \<Rightarrow> [(''email'', JStr v)])
           @ (case dataNascimento a of None \<Rightarrow> [] | Some v \<Rightarrow> [(''dataNascimento'', JStr v)])
           @ (case sexo a of None \<Rightarrow> [] | Some v \<Rightarrow> [(''sexo'', JStr v)]))"

text \<open>
  \<open>(athleteData as any)[param]\<close>, already passed through the test
  \<open>value !== undefined && value !== null\<close> and through \<open>String(value)\<close>: one of the five
  fields, or for any other name what the prototype of the athlete object holds.
\<close>

definition athlete_param :: "runtime \<Rightarrow> AthleteData \<Rightarrow> string \<Rightarrow> string option" where
  "athlete_param rt a p =
     (if p \<in> set [''cpf'', ''nome'', ''email'', ''dataNascimento'', ''sexo''] then athlete_field a p
      else (let v = inherited rt (athlete_object a) p in
            if v = JUndefined \<or> v = JNull then None else Some (js_String rt v)))"

text \<open>
  The rule configuration. Its declaration (\<open>shared/schema\<close>) is not part of the sources, so
  the records list the fields the engine reads; a field the engine guards with \<open>||\<close> or
  \<open>?.\<close> is optional, and the discriminators it compares with string literals are strings.
  The fields \<open>type\<close>, \<open>method\<close> and \<open>value\<close> of the source are \<open>rule_type\<close> (\<open>auth_type\<close>),
  \<open>http_method\<close> and \<open>val\<close> here. A rule without \<open>request.url\<close> is one whose \<open>request\<close>
  is absent or whose \<open>url\<close> is the empty string: both are falsy for the filter of
  \<open>executeEligibilityCheck\<close>.
\<close>

record auth_cfg =
  auth_type :: string
  key_name :: "string option"
  key_value :: "string option"

record request_cfg =
  url :: string
  http_method :: "string option"
  params :: "string list"
  headers :: "(string \<times> string) list option"
  timeout_ms :: "nat option"
  auth :: "auth_cfg option"

record validation_cfg =
  mode :: string
  allowed_status :: "int list option"
  path :: "string option"
  val :: jsval

record EligibilityRule =
  rule_type :: string
  enabled :: bool
  request :: "request_cfg option"
  validation :: validation_cfg
  on_error :: string
  error_message :: "string option"
  save_fields :: "string list option"

text \<open>What \<open>validateExternalApi\<close> resolves to: \<open>{ok, message?, extractedData?}\<close>.\<close>

record api_result =
  ok :: bool
  message :: "string option"
  extractedData :: "(string \<rightharpoonup> jsval) option"

record EligibilityResult =
  eligible :: bool
  messages :: "string list"
  result_extractedData :: "(string \<rightharpoonup> jsval) option"

section \<open>The outside world\<close>

text \<open>
  \<open>fetch\<close> is the environment: it receives the request and the state of the world and
  either rejects (with an \<open>AbortError\<close> when the timer fired first) or yields a response,
  of which the engine reads the status and, at most once, \<open>json()\<close> (\<open>None\<close> when the body
  does not parse).
\<close>

record http_request =
  req_url :: string
  req_method :: string
  req_headers :: "(string \<times> string) list"
  req_body :: "(string \<times> string) list option"
  req_timeout_ms :: nat

datatype fetch_error = AbortError | NetworkError

datatype fetch_outcome = Rejected fetch_error | Response int "jsval option"

type_synonym 'w fetch = "http_request \<Rightarrow> 'w \<Rightarrow> fetch_outcome \<times> 'w"

datatype js_error = TypeError

section \<open>Authentication injection\<close>

text \<open>
  \<^verbatim>\<open>
  function applyAuth(url, headers, auth?) {
    if (!auth || auth.type === 'none') return { url, headers };
    const keyName = auth.key_name || '';
    const keyValue = auth.key_value || '';
    if (!keyValue) { console.warn(...); return { url, headers }; }
    switch (auth.type) {
      case 'api_key_header':
        return { url, headers: { ...headers, [keyName || 'X-API-Key']: keyValue } };
      case 'api_key_query': {
        const separator = url.includes('?') ? '&' : '?';
        const paramName = keyName || 'api_key';
        return { url: `${url}${separator}${encodeURIComponent(paramName)}=${encodeURIComponent(keyValue)}`, headers };
      }
      case 'bearer_token':
        return { url, headers: { ...headers, 'Authorization': `Bearer ${keyValue}` } };
      default:
        return { url, headers };
    }
  }
  \<close>
\<close>

definition applyAuth ::
  "string \<Rightarrow> (string \<times> string) list \<Rightarrow> auth_cfg option \<Rightarrow> string \<times> (string \<times> string) list" where
  "applyAuth u hs a_opt =
     (case a_opt of
        None \<Rightarrow> (u, hs)
      | Some a \<Rightarrow>
          if auth_type a = ''none'' then (u, hs)
          else
            let keyName = str_or (key_name a) [];
                keyValue = str_or (key_value a) []
            in if keyValue = [] then (u, hs)
               else if auth_type a = ''api_key_header'' then
                 (u, obj_set (str_or (Some keyName) ''X-API-Key'') keyValue hs)
               else if auth_type a = ''api_key_query'' then
                 (u @ (if CHR ''?'' \<in> set u then ''&'' else ''?'')
                    @ encodeURIComponent (str_or (Some keyName) ''api_key'')
                    @ ''='' @ encodeURIComponent keyValue,
                  hs)
               else if auth_type a = ''bearer_token'' then
                 (u, obj_set ''Authorization'' (''Bearer '' @ keyValue) hs)
               else (u, hs))"

section \<open>Single-rule validation\<close>

definition unavailable_message :: string where
  "unavailable_message =
     ''Valida'' @ [CHR 0xE7, CHR 0xE3] @ ''o externa temporariamente indispon'' @ [CHR 0xED]
       @ ''vel, inscri'' @ [CHR 0xE7, CHR 0xE3] @ ''o permitida.''"

definition unexpected_message :: string where
  "unexpected_message =
     ''Erro inesperado na valida'' @ [CHR 0xE7, CHR 0xE3] @ ''o externa.''"

text \<open>
  The block the source repeats after a transport failure, a status of 500 or more, a parse
  failure under \<open>json_compare\<close> and in the outer \<open>catch\<close>:
  \<^verbatim>\<open>
  if (ruleConfig.on_error === 'allow') {
    return { ok: true, message: <unavailable_message> };
  }
  return { ok: false, message: ruleConfig.error_message || <unexpected_message> };
  \<close>
\<close>

definition on_error_result :: "EligibilityRule \<Rightarrow> api_result" where
  "on_error_result rule =
     (if on_error rule = ''allow'' then
        \<lparr>ok = True, message = Some unavailable_message, extractedData = None\<rparr>
      else
        \<lparr>ok = False, message = Some (str_or (error_message rule) unexpected_message),
         extractedData = None\<rparr>)"

text \<open>
  The parameter map: fields of the athlete that are \<open>undefined\<close> or \<open>null\<close> are left out.
  The assignment \<open>paramValues[param] = String(value)\<close> stores no entry for the name
  \<open>__proto__\<close> (it reaches the accessor of \<open>Object.prototype\<close>, which ignores a string).
\<close>

definition param_values :: "runtime \<Rightarrow> string list \<Rightarrow> AthleteData \<Rightarrow> (string \<times> string) list" where
  "param_values rt ps a =
     foldl (\<lambda>acc p. case athlete_param rt a p of
                       None \<Rightarrow> acc
                     | Some v \<Rightarrow> if p = ''__proto__'' then acc else obj_set p v acc)
       [] ps"

text \<open>
  The request the engine hands to \<open>fetch\<close>: template filled in, \<open>Accept\<close> header merged
  with the static headers, authentication applied, and for \<open>POST\<close> the parameter map as a
  JSON body with its \<open>Content-Type\<close>.
\<close>

definition build_request :: "runtime \<Rightarrow> request_cfg \<Rightarrow> AthleteData \<Rightarrow> http_request" where
  "build_request rt rq a =
     (let paramValues = param_values rt (params rq) a;
          rawUrl = sanitizeUrl (url rq) paramValues;
          baseHeaders =
            obj_spread [(''Accept'', ''application/json'')]
              (case headers rq of None \<Rightarrow> [] | Some hs \<Rightarrow> hs);
          (finalUrl, finalHeaders) = applyAuth rawUrl baseHeaders (auth rq);
          m = str_or (http_method rq) ''GET''
      in \<lparr>req_url = finalUrl,
          req_method = m,
          req_headers =
            (if m = ''POST'' then obj_set ''Content-Type'' ''application/json'' finalHeaders
             else finalHeaders),
          req_body = (if m = ''POST'' then Some paramValues else None),
          req_timeout_ms =
            (case timeout_ms rq of None \<Rightarrow> 3000 | Some t \<Rightarrow> if t = 0 then 3000 else t)\<rparr>)"

text \<open>
  The part of the \<open>try\<close> block that runs once a response has arrived. Log lines are not
  modelled, except that building one can throw: the \<open>json_compare\<close> branches interpolate
  \<open>actualValue\<close> and \<open>expectedValue\<close> into a template literal.
  \<^verbatim>\<open>
    if (response.status === 404) {
      return { ok: false, message: ruleConfig.error_message };
    }
    if (response.status >= 500) { <on_error block> }
    const saveFields = ruleConfig.save_fields || [];
    let responseData: any = null;
    if (ruleConfig.validation.mode === 'json_compare' || saveFields.length > 0) {
      try {
        responseData = await response.json();
      } catch (parseError) {
        if (ruleConfig.validation.mode === 'json_compare') { <on_error block> }
        console.warn(...);
      }
    }
    const extracted = responseData && saveFields.length > 0
      ? extractFields(responseData, saveFields)
      : undefined;
    if (ruleConfig.validation.mode === 'http_status') {
      const allowedStatuses = ruleConfig.validation.allowed_status || [200];
      if (allowedStatuses.includes(response.status)) {
        return { ok: true, extractedData: extracted };
      }
      return { ok: false, message: ruleConfig.error_message };
    }
    if (ruleConfig.validation.mode === 'json_compare' && responseData) {
      const fieldPath = ruleConfig.validation.path || '';
      const expectedValue = ruleConfig.validation.value;
      const actualValue = getNestedValue(responseData, fieldPath);
      if (actualValue === expectedValue) {
        console.log(`... (json_compare: ${fieldPath}=${actualValue})`);
        return { ok: true, extractedData: extracted };
      }
      console.log(`... (json_compare: ${fieldPath}=${actualValue}, esperado=${expectedValue})`);
      return { ok: false, message: ruleConfig.error_message };
    }
    return { ok: true, extractedData: extracted };
  \<close>
\<close>

definition interpret_response ::
  "runtime \<Rightarrow> EligibilityRule \<Rightarrow> int \<Rightarrow> jsval option \<Rightarrow> js_error + api_result" where
  "interpret_response rt rule status body =
     (if status = 404 then
        Inr \<lparr>ok = False, message = error_message rule, extractedData = None\<rparr>
      else if status \<ge> 500 then Inr (on_error_result rule)
      else
        let saveFields = (case save_fields rule of None \<Rightarrow> [] | Some fs \<Rightarrow> fs);
            m = mode (validation rule);
            wants_json = (m = ''json_compare'' \<or> saveFields \<noteq> [])
        in if wants_json \<and> body = None \<and> m = ''json_compare'' then Inr (on_error_result rule)
           else
             let responseData =
                   (if wants_json then (case body of None \<Rightarrow> JNull | Some d \<Rightarrow> d) else JNull);
                 extracted =
                   (if js_truthy responseData \<and> saveFields \<noteq> []
                    then Some (extractFields rt responseData saveFields) else None)
             in if m = ''http_status'' then
                  (if status \<in> set (case allowed_status (validation rule) of
                                       None \<Rightarrow> [200] | Some xs \<Rightarrow> xs)
                   then Inr \<lparr>ok = True, message = None, extractedData = extracted\<rparr>
                   else Inr \<lparr>ok = False, message = error_message rule, extractedData = None\<rparr>)
                else if m = ''json_compare'' \<and> js_truthy responseData then
                  (let fieldPath = str_or (path (validation rule)) [];
                       expectedValue = val (validation rule);
                       actualValue = getNestedValue rt responseData fieldPath
                   in if strict_eq actualValue expectedValue then
                        (if js_tostring_throws actualValue then Inl TypeError
                         else Inr \<lparr>ok = True, message = None, extractedData = extracted\<rparr>)
                      else if js_tostring_throws actualValue \<or> js_tostring_throws expectedValue
                        then Inl TypeError
                      else Inr \<lparr>ok = False, message = error_message rule, extractedData = None\<rparr>)
                else Inr \<lparr>ok = True, message = None, extractedData = extracted\<rparr>)"

text \<open>
  The \<open>try\<close> block of \<open>validateExternalApi\<close>: \<open>Inl\<close> is an exception on its way to the
  outer \<open>catch\<close>. Reading \<open>ruleConfig.request.params\<close> throws when the rule has no
  \<open>request\<close>; a rejected \<open>fetch\<close> is caught on the spot and answered by the
  \<open>on_error\<close> block.
\<close>

definition validateExternalApi_try ::
  "runtime \<Rightarrow> 'w fetch \<Rightarrow> EligibilityRule \<Rightarrow> AthleteData \<Rightarrow> 'w \<Rightarrow> (js_error + api_result) \<times> 'w" where
  "validateExternalApi_try rt fetch ruleConfig athleteData w =
     (case request ruleConfig of
        None \<Rightarrow> (Inl TypeError, w)
      | Some rq \<Rightarrow>
          (case fetch (build_request rt rq athleteData) w of
             (Rejected fetchError, w') \<Rightarrow> (Inr (on_error_result ruleConfig), w')
           | (Response status body, w') \<Rightarrow>
               (interpret_response rt ruleConfig status body, w')))"

text \<open>
  \<open>validateExternalApi\<close> itself: the outer \<open>catch\<close> turns any exception of the \<open>try\<close>
  block into the \<open>on_error\<close> answer. The result is still a sum, so that "the promise
  never rejects" is a statement about this function and not a property of its type.
\<close>

definition validateExternalApi ::
  "runtime \<Rightarrow> 'w fetch \<Rightarrow> EligibilityRule \<Rightarrow> AthleteData \<Rightarrow> 'w \<Rightarrow> (js_error + api_result) \<times> 'w" where
  "validateExternalApi rt fetch ruleConfig athleteData w =
     (case validateExternalApi_try rt fetch ruleConfig athleteData w of
        (Inl error, w') \<Rightarrow> (Inr (on_error_result ruleConfig), w')
      | (Inr result, w') \<Rightarrow> (Inr result, w'))"

section \<open>Orchestration\<close>

text \<open>The filter \<open>r => r.enabled && r.request?.url\<close>; an empty \<open>url\<close> is falsy.\<close>

definition is_active :: "EligibilityRule \<Rightarrow> bool" where
  "is_active r = (enabled r \<and> (case request r of None \<Rightarrow> False | Some rq \<Rightarrow> url rq \<noteq> []))"

text \<open>
  The loop over the active rules, with its three accumulators \<open>eligible\<close>, \<open>messages\<close>
  and \<open>extractedData\<close> (the spread \<open>{...a, ...b}\<close> of two entry maps is \<open>a ++ b\<close>):
  \<^verbatim>\<open>
  for (const rule of activeRules) {
    if (rule.type === 'api_rest') {
      const result = await validateExternalApi(rule, athleteData);
      if (!result.ok) {
        eligible = false;
        if (result.message) { messages.push(result.message); }
      }
      if (result.extractedData) {
        extractedData = { ...extractedData, ...result.extractedData };
      }
    }
  }
  \<close>
\<close>

type_synonym check_acc = "bool \<times> string list \<times> (string \<rightharpoonup> jsval)"

fun check_rules ::
  "runtime \<Rightarrow> 'w fetch \<Rightarrow> AthleteData \<Rightarrow> EligibilityRule list \<Rightarrow> check_acc \<Rightarrow> 'w
     \<Rightarrow> (js_error + check_acc) \<times> 'w" where
  "check_rules rt fetch athleteData [] acc w = (Inr acc, w)"
| "check_rules rt fetch athleteData (rule # rest) (el, msgs, ex) w =
     (if rule_type rule = ''api_rest'' then
        (case validateExternalApi rt fetch rule athleteData w of
           (Inl e, w') \<Rightarrow> (Inl e, w')
         | (Inr result, w') \<Rightarrow>
             check_rules rt fetch athleteData rest
               (if ok result then el else False,
                if ok result then msgs
                else (case message result of
                        None \<Rightarrow> msgs
                      | Some m \<Rightarrow> if m = [] then msgs else msgs @ [m]),
                case extractedData result of None \<Rightarrow> ex | Some d \<Rightarrow> ex ++ d)
               w')
      else check_rules rt fetch athleteData rest (el, msgs, ex) w)"

text \<open>
  \<^verbatim>\<open>
  export async function executeEligibilityCheck(athleteData, rules) {
    const activeRules = rules.filter(r => r.enabled && r.request?.url);
    if (activeRules.length === 0) {
      return { eligible: true, messages: [] };
    }
    const messages: string[] = [];
    let eligible = true;
    let extractedData: Record<string, any> = {};
    <loop>
    return {
      eligible,
      messages,
      extractedData: Object.keys(extractedData).length > 0 ? extractedData : undefined
    };
  }
  \<close>
\<close>

definition executeEligibilityCheck ::
  "runtime \<Rightarrow> 'w fetch \<Rightarrow> AthleteData \<Rightarrow> EligibilityRule list \<Rightarrow> 'w
     \<Rightarrow> (js_error + EligibilityResult) \<times> 'w" where
  "executeEligibilityCheck rt fetch athleteData rules w =
     (let activeRules = filter is_active rules in
      if activeRules = [] then
        (Inr \<lparr>eligible = True, messages = [], result_extractedData = None\<rparr>, w)
      else
        (case check_rules rt fetch athleteData activeRules (True, [], Map.empty) w of
           (Inl e, w') \<Rightarrow> (Inl e, w')
         | (Inr (el, msgs, ex), w') \<Rightarrow>
             (Inr \<lparr>eligible = el, messages = msgs,
                   result_extractedData = (if ex \<noteq> Map.empty then Some ex else None)\<rparr>,
              w')))"

section \<open>The earlier engine in \<open>server/services/eligibility-service.ts\<close>\<close>

text \<open>
  The sources hold a second copy of the engine, without authentication, request body and
  field extraction. \<open>maskCpf\<close>, \<open>sanitizeUrl\<close> and \<open>getNestedValue\<close> are the same text in
  both; \<open>validateExternalApi\<close> differs, and the suffix \<open>_svc\<close> marks its model.
\<close>

definition build_request_svc :: "runtime \<Rightarrow> request_cfg \<Rightarrow> AthleteData \<Rightarrow> http_request" where
  "build_request_svc rt rq a =
     \<lparr>req_url = sanitizeUrl (url rq) (param_values rt (params rq) a),
      req_method = str_or (http_method rq) ''GET'',
      req_headers =
        obj_spread [(''Accept'', ''application/json'')]
          (case headers rq of None \<Rightarrow> [] | Some hs \<Rightarrow> hs),
      req_body = None,
      req_timeout_ms =
        (case timeout_ms rq of None \<Rightarrow> 3000 | Some t \<Rightarrow> if t = 0 then 3000 else t)\<rparr>"

text \<open>
  \<^verbatim>\<open>
    if (response.status === 404) {
      return { ok: false, message: ruleConfig.error_message };
    }
    if (response.status >= 500) { <on_error block> }
    if (ruleConfig.validation.mode === 'http_status') {
      const allowedStatuses = ruleConfig.validation.allowed_status || [200];
      if (allowedStatuses.includes(response.status)) { return { ok: true }; }
      return { ok: false, message: ruleConfig.error_message };
    }
    if (ruleConfig.validation.mode === 'json_compare') {
      try {
        const data = await response.json();
        const fieldPath = ruleConfig.validation.path || '';
        const expectedValue = ruleConfig.validation.value;
        const actualValue = getNestedValue(data, fieldPath);
        if (actualValue === expectedValue) {
          console.log(`... (json_compare: ${fieldPath}=${actualValue})`);
          return { ok: true };
        }
        console.log(`... (json_compare: ${fieldPath}=${actualValue}, esperado=${expectedValue})`);
        return { ok: false, message: ruleConfig.error_message };
      } catch (parseError) { <on_error block> }
    }
    return { ok: true };
  \<close>
  Here the inner \<open>catch\<close> also receives an exception of the log lines, so nothing of this
  part reaches the outer \<open>catch\<close>.
\<close>

definition interpret_response_svc ::
  "runtime \<Rightarrow> EligibilityRule \<Rightarrow> int \<Rightarrow> jsval option \<Rightarrow> api_result" where
  "interpret_response_svc rt rule status body =
     (if status = 404 then \<lparr>ok = False, message = error_message rule, extractedData = None\<rparr>
      else if status \<ge> 500 then on_error_result rule
      else if mode (validation rule) = ''http_status'' then
        (if status \<in> set (case allowed_status (validation rule) of
                             None \<Rightarrow> [200] | Some xs \<Rightarrow> xs)
         then \<lparr>ok = True, message = None, extractedData = None\<rparr>
         else \<lparr>ok = False, message = error_message rule, extractedData = None\<rparr>)
      else if mode (validation rule) = ''json_compare'' then
        (case body of
           None \<Rightarrow> on_error_result rule
         | Some data \<Rightarrow>
             let fieldPath = str_or (path (validation rule)) [];
                 expectedValue = val (validation rule);
                 actualValue = getNestedValue rt data fieldPath
             in if strict_eq actualValue expectedValue then
                  (if js_tostring_throws actualValue then on_error_result rule
                   else \<lparr>ok = True, message = None, extractedData = None\<rparr>)
                else if js_tostring_throws actualValue \<or> js_tostring_throws expectedValue
                  then on_error_result rule
                else \<lparr>ok = False, message = error_message rule, extractedData = None\<rparr>)
      else \<lparr>ok = True, message = None, extractedData = None\<rparr>)"

definition validateExternalApi_svc_try ::
  "runtime \<Rightarrow> 'w fetch \<Rightarrow> EligibilityRule \<Rightarrow> AthleteData \<Rightarrow> 'w \<Rightarrow> (js_error + api_result) \<times> 'w" where
  "validateExternalApi_svc_try rt fetch ruleConfig athleteData w =
     (case request ruleConfig of
        None \<Rightarrow> (Inl TypeError, w)
      | Some rq \<Rightarrow>
          (case fetch (build_request_svc rt rq athleteData) w of
             (Rejected fetchError, w') \<Rightarrow> (Inr (on_error_result ruleConfig), w')
           | (Response status body, w') \<Rightarrow>
               (Inr (interpret_response_svc rt ruleConfig status body), w')))"

definition validateExternalApi_svc ::
  "runtime \<Rightarrow> 'w fetch \<Rightarrow> EligibilityRule \<Rightarrow> AthleteData \<Rightarrow> 'w \<Rightarrow> (js_error + api_result) \<times> 'w" where
  "validateExternalApi_svc rt fetch ruleConfig athleteData w =
     (case validateExternalApi_svc_try rt fetch ruleConfig athleteData w of
        (Inl error, w') \<Rightarrow> (Inr (on_error_result ruleConfig), w')
      | (Inr result, w') \<Rightarrow> (Inr result, w'))"

section \<open>Example configurations\<close>

text \<open>
  The rule of the implementation plan (a patient registry queried by \<open>cpf\<close>, answering
  with an \<open>apto\<close> flag) and an environment that gives every request the same outcome and
  counts the requests it has seen.
\<close>

definition example_athlete :: AthleteData where
  "example_athlete =
     \<lparr>cpf = ''123.456.789-00'', nome = ''Ana'', email = None, dataNascimento = None,
      sexo = None\<rparr>"

definition example_request :: request_cfg where
  "example_request =
     \<lparr>url = ''https://api.exemplo.com/pacientes/{cpf}'', http_method = Some ''GET'',
      params = [''cpf''], headers = None, timeout_ms = Some 3000, auth = None\<rparr>"

definition status_rule :: EligibilityRule where
  "status_rule =
     \<lparr>rule_type = ''api_rest'', enabled = True, request = Some example_request,
      validation =
        \<lparr>mode = ''http_status'', allowed_status = None, path = None, val = JUndefined\<rparr>,
      on_error = ''block'', error_message = Some ''CPF not registered'', save_fields = None\<rparr>"

definition compare_rule :: EligibilityRule where
  "compare_rule =
     status_rule\<lparr>validation :=
       \<lparr>mode = ''json_compare'', allowed_status = None, path = Some ''apto'',
        val = JBool True\<rparr>\<rparr>"

definition always :: "fetch_outcome \<Rightarrow> nat fetch" where
  "always outcome = (\<lambda>rq n. (outcome, Suc n))"

section \<open>Properties of the string functions\<close>

subsection \<open>Helper facts\<close>

lemma hex_digit_in: "hex_digit n \<in> set ''0123456789ABCDEF''"
  unfolding hex_digit_def by (rule nth_mem) simp

lemma hex_digit_not_dollar: "hex_digit n \<noteq> CHR ''$''"
  using hex_digit_in [of n] by auto

lemma uri_unreserved_not_dollar: "uri_unreserved c \<Longrightarrow> c \<noteq> CHR ''$''"
  by (auto simp: uri_unreserved_def)

lemma pct_byte_no_dollar: "CHR ''$'' \<notin> set (pct_byte n)"
  using hex_digit_not_dollar [of n] hex_digit_not_dollar [of "n div 16"]
  by (auto simp: pct_byte_def)

lemma encode_char_no_dollar: "CHR ''$'' \<notin> set (encode_char c)"
  using uri_unreserved_not_dollar [of c]
  by (auto simp: encode_char_def pct_byte_no_dollar)

text \<open>
  An encoded value holds no dollar sign, so \<open>String.prototype.replace\<close> finds no
  replacement pattern in it and inserts it as it is.
\<close>

lemma encodeURIComponent_no_dollar: "CHR ''$'' \<notin> set (encodeURIComponent s)"
  by (induction s) (simp_all add: encodeURIComponent_def encode_char_no_dollar)

lemma replace_first_at:
  "c \<notin> set pre \<Longrightarrow> replace_first (c # pat) rep (pre @ (c # pat) @ post) = pre @ rep @ post"
  by (induction pre) auto

lemma sanitizeUrl_append: "sanitizeUrl u (ps @ qs) = sanitizeUrl (sanitizeUrl u ps) qs"
  by (induction ps arbitrary: u) auto

subsection \<open>maskCpf\<close>

text \<open>With fewer than eleven digits the result is the fully masked placeholder.\<close>

lemma maskCpf_short: "length (filter is_digit s) < 11 \<Longrightarrow> maskCpf s = ''***.***.***-**''"
  by (simp add: maskCpf_def)

text \<open>
  With eleven digits or more the last group follows a dot, where the placeholder has a
  hyphen.
\<close>

lemma maskCpf_long:
  "11 \<le> length (filter is_digit s) \<Longrightarrow>
   maskCpf s = take 3 (filter is_digit s) @ ''.***.***.'' @ take 2 (drop 9 (filter is_digit s))"
  by (simp add: maskCpf_def slice_def Let_def)

text \<open>
  C9. The claim gives \<open>maskCpf("123.456.789-00") = "123.***.***-00"\<close>, the canonical format
  with a hyphen before the last group. The template literal of the code writes a dot there:
  the function returns \<open>"123.***.***.00"\<close>.
\<close>

theorem maskCpf_example_has_dot:
  "maskCpf ''123.456.789-00'' = ''123.***.***.00''
   \<and> maskCpf ''123.456.789-00'' \<noteq> ''123.***.***-00''"
  by (simp add: maskCpf_def is_digit_def slice_def)

subsection \<open>sanitizeUrl\<close>

text \<open>
  C7. The claim has every occurrence of \<open>{key}\<close> replaced, also when the placeholder is
  repeated. \<open>replace\<close> with a string pattern stops after the first occurrence: the second
  \<open>{cpf}\<close> of the template stays in the URL.
\<close>

theorem sanitizeUrl_second_occurrence_kept:
  "sanitizeUrl ''https://x/{cpf}/y/{cpf}'' [(''cpf'', ''12345678900'')]
     = ''https://x/12345678900/y/{cpf}''"
  by (simp add: sanitize_value_def encodeURIComponent_def encode_char_def uri_unreserved_def)

text \<open>
  C8, as stated: every non-digit character of the \<open>cpf\<close> value is stripped before it is
  encoded. A slash is not: it reaches the URL percent-encoded, where stripping all
  non-digits would have given \<open>https://x/12345678900\<close>.
\<close>

theorem sanitizeUrl_cpf_slash_counterexample:
  "sanitizeUrl ''https://x/{cpf}'' [(''cpf'', ''123.456.789/00'')] = ''https://x/123456789%2F00''
   \<and> ''https://x/'' @ encodeURIComponent (filter is_digit ''123.456.789/00'')
       = ''https://x/12345678900''"
  by (simp add: sanitize_value_def encodeURIComponent_def encode_char_def uri_unreserved_def
        pct_byte_def hex_digit_def is_digit_def)

text \<open>
  C8, amended: for the key \<open>cpf\<close> exactly the dots and hyphens are removed from the value
  before it is percent-encoded and substituted. Passing a value is the same as passing it
  with its dots and hyphens removed, whatever the other parameters are; and a template
  whose first brace opens \<open>{cpf}\<close> receives the encoded stripped value in its place.
\<close>

theorem sanitizeUrl_cpf_strips_dots_and_hyphens:
  "sanitizeUrl u (ps @ (''cpf'', v) # qs)
     = sanitizeUrl u (ps @ (''cpf'', filter (\<lambda>c. c \<noteq> CHR ''.'' \<and> c \<noteq> CHR ''-'') v) # qs)
   \<and> (CHR ''{'' \<notin> set pre \<longrightarrow>
        sanitizeUrl (pre @ ''{cpf}'' @ post) [(''cpf'', v)]
          = pre @ encodeURIComponent (filter (\<lambda>c. c \<noteq> CHR ''.'' \<and> c \<noteq> CHR ''-'') v) @ post)"
proof (intro conjI impI)
  show "sanitizeUrl u (ps @ (''cpf'', v) # qs)
     = sanitizeUrl u (ps @ (''cpf'', filter (\<lambda>c. c \<noteq> CHR ''.'' \<and> c \<noteq> CHR ''-'') v) # qs)"
    by (simp add: sanitizeUrl_append sanitize_value_def)
next
  assume "CHR ''{'' \<notin> set pre"
  then have "replace_first (CHR ''{'' # ''cpf}'') r (pre @ (CHR ''{'' # ''cpf}'') @ post)
               = pre @ r @ post" for r
    by (rule replace_first_at)
  then show "sanitizeUrl (pre @ ''{cpf}'' @ post) [(''cpf'', v)]
          = pre @ encodeURIComponent (filter (\<lambda>c. c \<noteq> CHR ''.'' \<and> c \<noteq> CHR ''-'') v) @ post"
    by (simp add: sanitize_value_def)
qed

text \<open>The example of the specification is an instance.\<close>

theorem sanitizeUrl_cpf_strips_dots_and_hyphens_witness:
  "CHR ''{'' \<notin> set ''https://x/'' \<and>
   sanitizeUrl ''https://x/{cpf}'' [(''cpf'', ''123.456.789-00'')] = ''https://x/12345678900''"
  using sanitizeUrl_cpf_strips_dots_and_hyphens
    [of "[]" "[]" "''123.456.789-00''" "[]" "''https://x/''" "[]"]
  by (simp add: encodeURIComponent_def encode_char_def uri_unreserved_def)

section \<open>Properties of path lookup\<close>

lemma foldl_undefined:
  "foldl (\<lambda>current key.
            if current \<noteq> JUndefined \<and> current \<noteq> JNull then js_get rt current key
            else JUndefined) JUndefined keys = JUndefined"
  by (induction keys) simp_all

lemma foldl_own_path:
  "own_path v keys \<Longrightarrow>
   foldl (\<lambda>current key.
            if current \<noteq> JUndefined \<and> current \<noteq> JNull then js_get rt current key
            else JUndefined) v keys
   = foldl (\<lambda>current key.
              if current \<noteq> JUndefined \<and> current \<noteq> JNull then js_get rt' current key
              else JUndefined) v keys"
proof (induction keys arbitrary: v)
  case Nil
  show ?case by simp
next
  case (Cons key keys)
  show ?case
  proof (cases "v = JUndefined \<or> v = JNull")
    case True
    then show ?thesis by (auto simp: foldl_undefined)
  next
    case False
    with Cons.prems obtain x where x: "own_member v key = Some x" "own_path x keys"
      by (auto split: option.splits)
    with False Cons.IH [of x] show ?thesis by (simp add: js_get_def)
  qed
qed

text \<open>A path that stays within own members reads the same value under every runtime.\<close>

lemma getNestedValue_own_path:
  "own_path obj (split_on CHR ''.'' p) \<Longrightarrow>
   getNestedValue rt obj p = getNestedValue rt' obj p"
  unfolding getNestedValue_def by (rule foldl_own_path)

text \<open>
  Two readings of \<open>extractFields\<close>. A field that names an inherited member carries what
  the runtime holds for it (for \<open>constructor\<close> on an object, the \<open>Object\<close> function). A
  field named \<open>__proto__\<close> leaves no entry, also when the body has an own entry of that
  name.
\<close>

lemma extractFields_inherited_member:
  "extractFields rt (JObj [(''a'', JNum 1)]) [''constructor'']
     = (if inherited rt (JObj [(''a'', JNum 1)]) ''constructor'' = JUndefined then Map.empty
        else [''constructor'' \<mapsto> inherited rt (JObj [(''a'', JNum 1)]) ''constructor''])"
  by (simp add: extractFields_def getNestedValue_def js_get_def js_assign_def)

lemma extractFields_proto_dropped:
  "extractFields rt (JObj [(''__proto__'', JNum 1), (''a'', JNum 2)]) [''__proto__'', ''a'']
     = [''a'' \<mapsto> JNum 2]"
  by (simp add: extractFields_def getNestedValue_def js_get_def js_assign_def)

section \<open>Properties of single-rule validation\<close>

subsection \<open>Business outcomes\<close>

text \<open>
  C3. Once a response with status 404 has arrived, the rule fails with
  \<open>rule.errorMessage\<close> as its message, whatever \<open>on_error\<close> says: the answer is the same
  under \<open>allow\<close> and under \<open>block\<close>.
\<close>

theorem validateExternalApi_404:
  assumes "request rule = Some rq"
    and "fetch (build_request rt rq a) w = (Response 404 body, w')"
  shows "validateExternalApi rt fetch rule a w
           = (Inr \<lparr>ok = False, message = error_message rule, extractedData = None\<rparr>, w')
         \<and> validateExternalApi rt fetch (rule\<lparr>on_error := ''allow''\<rparr>) a w
           = validateExternalApi rt fetch (rule\<lparr>on_error := ''block''\<rparr>) a w"
  using assms
  by (simp add: validateExternalApi_def validateExternalApi_try_def interpret_response_def)

theorem validateExternalApi_404_witness:
  "\<forall>rt. request (compare_rule\<lparr>on_error := ''allow''\<rparr>) = Some example_request
     \<and> always (Response 404 None) (build_request rt example_request example_athlete) 0
         = (Response 404 None, 1)
     \<and> validateExternalApi rt (always (Response 404 None)) (compare_rule\<lparr>on_error := ''allow''\<rparr>)
          example_athlete 0
         = (Inr \<lparr>ok = False, message = Some ''CPF not registered'', extractedData = None\<rparr>, 1)"
proof
  fix rt
  show "request (compare_rule\<lparr>on_error := ''allow''\<rparr>) = Some example_request
     \<and> always (Response 404 None) (build_request rt example_request example_athlete) 0
         = (Response 404 None, 1)
     \<and> validateExternalApi rt (always (Response 404 None)) (compare_rule\<lparr>on_error := ''allow''\<rparr>)
          example_athlete 0
         = (Inr \<lparr>ok = False, message = Some ''CPF not registered'', extractedData = None\<rparr>, 1)"
    using validateExternalApi_404
      [where rule = "compare_rule\<lparr>on_error := ''allow''\<rparr>" and rq = example_request
         and fetch = "always (Response 404 None)" and rt = rt and a = example_athlete
         and w = 0 and body = None and w' = 1]
    by (simp add: compare_rule_def status_rule_def always_def)
qed




text \<open>
  C2. The claim: under \<open>json_compare\<close>, with a body that parsed, the rule passes exactly
  when the value at \<open>validation.path\<close> is strictly equal to \<open>validation.value\<close>. The engine
  guards the comparison with \<open>&& responseData\<close>, so a body that parsed to a falsy value
  (\<open>null\<close>, \<open>false\<close>, \<open>0\<close>, \<open>""\<close>) skips it and falls through to \<open>{ok: true}\<close>. For the
  body \<open>null\<close> the lookup of \<open>apto\<close> is \<open>undefined\<close>, which is not \<open>true\<close>, and the rule
  passes all the same; the earlier engine, without the guard, fails it with
  \<open>rule.errorMessage\<close>. No member is read on the way.
\<close>

theorem json_compare_null_body_passes:
  "\<forall>rt. validateExternalApi rt (always (Response 200 (Some JNull))) compare_rule example_athlete 0
       = (Inr \<lparr>ok = True, message = None, extractedData = None\<rparr>, 1)
     \<and> \<not> strict_eq (getNestedValue rt JNull ''apto'') (val (validation compare_rule))
     \<and> validateExternalApi_svc rt (always (Response 200 (Some JNull))) compare_rule
          example_athlete 0
       = (Inr \<lparr>ok = False, message = error_message compare_rule, extractedData = None\<rparr>, 1)"
  by (simp add: validateExternalApi_def validateExternalApi_try_def interpret_response_def
        validateExternalApi_svc_def validateExternalApi_svc_try_def interpret_response_svc_def
        compare_rule_def status_rule_def always_def getNestedValue_def str_or_def)

text \<open>
  On a truthy body whose looked-up value and expected value can be written to the log, the
  comparison decides, as the claim says.
\<close>

lemma json_compare_truthy_body:
  assumes "request rule = Some rq"
    and "mode (validation rule) = ''json_compare''"
    and "fetch (build_request rt rq a) w = (Response status (Some d), w')"
    and "status \<noteq> 404" and "status < 500" and "js_truthy d"
    and "\<not> js_tostring_throws (getNestedValue rt d (str_or (path (validation rule)) []))"
    and "\<not> js_tostring_throws (val (validation rule))"
  shows "\<exists>r. validateExternalApi rt fetch rule a w = (Inr r, w')
           \<and> (ok r \<longleftrightarrow> strict_eq (getNestedValue rt d (str_or (path (validation rule)) []))
                              (val (validation rule)))
           \<and> (\<not> ok r \<longrightarrow> message r = error_message rule)"
  using assms
  by (simp add: validateExternalApi_def validateExternalApi_try_def interpret_response_def Let_def)



subsection \<open>Infrastructure failures\<close>

text \<open>
  C4. When \<open>fetch\<close> rejects (network error or timeout), when the status is 500 or more,
  and when the body does not parse under \<open>json_compare\<close> (the body is only read for a
  status that is neither 404 nor 500 or more), \<open>on_error\<close> decides: \<open>allow\<close> gives
  \<open>ok = true\<close> with the temporarily-unavailable message, anything else gives \<open>ok = false\<close>
  with \<open>rule.errorMessage\<close>, or with the generic message when that is unset or empty.
\<close>

theorem infrastructure_failure_follows_on_error:
  assumes "request rule = Some rq"
    and "fetch (build_request rt rq a) w = (outcome, w')"
    and "(\<exists>e. outcome = Rejected e)
         \<or> (\<exists>status body. outcome = Response status body \<and> status \<ge> 500)
         \<or> (\<exists>status. outcome = Response status None \<and> status \<noteq> 404 \<and> status < 500
               \<and> mode (validation rule) = ''json_compare'')"
  shows "validateExternalApi rt fetch rule a w
           = (Inr (if on_error rule = ''allow''
                   then \<lparr>ok = True, message = Some unavailable_message, extractedData = None\<rparr>
                   else \<lparr>ok = False,
                         message = Some (case error_message rule of
                                           None \<Rightarrow> unexpected_message
                                         | Some m \<Rightarrow> if m = [] then unexpected_message else m),
                         extractedData = None\<rparr>), w')"
  using assms
  by (auto simp: validateExternalApi_def validateExternalApi_try_def interpret_response_def
        on_error_result_def str_or_def Let_def split: option.splits)

text \<open>
  A timeout under \<open>allow\<close> passes with the advisory message and leaves the overall check
  eligible; a 500 under \<open>block\<close> makes the overall check ineligible with
  \<open>rule.errorMessage\<close> among the messages.
\<close>

theorem infrastructure_failure_follows_on_error_witness:
  "\<forall>rt. request (status_rule\<lparr>on_error := ''allow''\<rparr>) = Some example_request
     \<and> always (Rejected AbortError) (build_request rt example_request example_athlete) 0
         = (Rejected AbortError, 1)
     \<and> (\<exists>e. Rejected AbortError = Rejected e)
     \<and> validateExternalApi rt (always (Rejected AbortError)) (status_rule\<lparr>on_error := ''allow''\<rparr>)
          example_athlete 0
         = (Inr \<lparr>ok = True, message = Some unavailable_message, extractedData = None\<rparr>, 1)
     \<and> executeEligibilityCheck rt (always (Rejected AbortError)) example_athlete
          [status_rule\<lparr>on_error := ''allow''\<rparr>] 0
         = (Inr \<lparr>eligible = True, messages = [], result_extractedData = None\<rparr>, 1)
     \<and> executeEligibilityCheck rt (always (Response 500 None)) example_athlete [status_rule] 0
         = (Inr \<lparr>eligible = False, messages = [''CPF not registered''],
                 result_extractedData = None\<rparr>, 1)"
proof
  fix rt
  show "request (status_rule\<lparr>on_error := ''allow''\<rparr>) = Some example_request
     \<and> always (Rejected AbortError) (build_request rt example_request example_athlete) 0
         = (Rejected AbortError, 1)
     \<and> (\<exists>e. Rejected AbortError = Rejected e)
     \<and> validateExternalApi rt (always (Rejected AbortError)) (status_rule\<lparr>on_error := ''allow''\<rparr>)
          example_athlete 0
         = (Inr \<lparr>ok = True, message = Some unavailable_message, extractedData = None\<rparr>, 1)
     \<and> executeEligibilityCheck rt (always (Rejected AbortError)) example_athlete
          [status_rule\<lparr>on_error := ''allow''\<rparr>] 0
         = (Inr \<lparr>eligible = True, messages = [], result_extractedData = None\<rparr>, 1)
     \<and> executeEligibilityCheck rt (always (Response 500 None)) example_athlete [status_rule] 0
         = (Inr \<lparr>eligible = False, messages = [''CPF not registered''],
                 result_extractedData = None\<rparr>, 1)"
    using infrastructure_failure_follows_on_error
      [where rule = "status_rule\<lparr>on_error := ''allow''\<rparr>" and rq = example_request
         and fetch = "always (Rejected AbortError)" and rt = rt and a = example_athlete
         and w = 0 and outcome = "Rejected AbortError" and w' = 1]
      infrastructure_failure_follows_on_error
      [where rule = status_rule and rq = example_request
         and fetch = "always (Response 500 None)" and rt = rt and a = example_athlete
         and w = 0 and outcome = "Response 500 None" and w' = 1]
    by (simp add: status_rule_def always_def executeEligibilityCheck_def is_active_def
          example_request_def)
qed

subsection \<open>No exception escapes\<close>

lemma validateExternalApi_not_Inl: "validateExternalApi rt fetch rule a w \<noteq> (Inl e, w')"
  by (auto simp: validateExternalApi_def split: prod.splits sum.splits)

lemma check_rules_not_Inl: "check_rules rt fetch a rules acc w \<noteq> (Inl e, w')"
proof (induction rt fetch a rules acc w rule: check_rules.induct)
  case (1 rt fetch athleteData acc w)
  show ?case by simp
next
  case (2 rt fetch athleteData rule rest el msgs ex w)
  show ?case
  proof (cases "rule_type rule = ''api_rest''")
    case False
    with "2.IH"(2) show ?thesis by simp
  next
    case True
    obtain x w1 where x: "validateExternalApi rt fetch rule athleteData w = (x, w1)"
      by (cases "validateExternalApi rt fetch rule athleteData w")
    then obtain r where r: "x = Inr r"
      using validateExternalApi_not_Inl [of rt fetch rule athleteData w] by (cases x) auto
    show ?thesis
      using True x r "2.IH"(1) [OF True x [unfolded r, symmetric]] by simp
  qed
qed

lemma executeEligibilityCheck_not_Inl:
  "executeEligibilityCheck rt fetch a rules w \<noteq> (Inl e, w')"
  using check_rules_not_Inl [of rt fetch a "filter is_active rules" "(True, [], Map.empty)" w e w']
  by (auto simp: executeEligibilityCheck_def Let_def split: prod.splits sum.splits)

text \<open>
  The \<open>try\<close> block does throw: a body whose \<open>apto\<close> is an object with an own \<open>toString\<close>
  entry breaks the log line of the mismatch branch. The outer \<open>catch\<close> answers with the
  \<open>on_error\<close> policy.
\<close>

lemma try_block_exception_is_caught:
  "validateExternalApi_try rt
     (always (Response 200 (Some (JObj [(''apto'', JObj [(''toString'', JNull)])]))))
     compare_rule example_athlete 0 = (Inl TypeError, 1)
   \<and> validateExternalApi rt
       (always (Response 200 (Some (JObj [(''apto'', JObj [(''toString'', JNull)])]))))
       compare_rule example_athlete 0
     = (Inr \<lparr>ok = False, message = Some ''CPF not registered'', extractedData = None\<rparr>, 1)"
  by (simp add: validateExternalApi_def validateExternalApi_try_def interpret_response_def
        on_error_result_def compare_rule_def status_rule_def always_def getNestedValue_def
        js_get_def str_or_def)

text \<open>
  C5. For every environment, rule and athlete, \<open>validateExternalApi\<close> resolves to a result
  \<open>{ok, message?}\<close> and never rejects, and so does \<open>executeEligibilityCheck\<close> for every
  rule list: it resolves to an \<open>EligibilityResult\<close>.
\<close>

theorem engine_never_rejects:
  "(\<exists>r. fst (validateExternalApi rt fetch rule a w) = Inr r)
   \<and> (\<exists>res. fst (executeEligibilityCheck rt fetch a rules w) = Inr res)"
proof
  show "\<exists>r. fst (validateExternalApi rt fetch rule a w) = Inr r"
    using validateExternalApi_not_Inl [of rt fetch rule a w]
    by (cases "validateExternalApi rt fetch rule a w";
        cases "fst (validateExternalApi rt fetch rule a w)") auto
next
  show "\<exists>res. fst (executeEligibilityCheck rt fetch a rules w) = Inr res"
    using executeEligibilityCheck_not_Inl [of rt fetch a rules w]
    by (cases "executeEligibilityCheck rt fetch a rules w";
        cases "fst (executeEligibilityCheck rt fetch a rules w)") auto
qed

theorem engine_never_rejects_witness:
  "\<forall>rt. (\<exists>r. fst (validateExternalApi rt
                   (always (Response 200 (Some (JObj [(''apto'', JObj [(''toString'', JNull)])]))))
                   compare_rule example_athlete 0) = Inr r)
     \<and> (\<exists>res. fst (executeEligibilityCheck rt
                  (always (Response 200 (Some (JObj [(''apto'', JObj [(''toString'', JNull)])]))))
                  example_athlete [compare_rule, status_rule] 0) = Inr res)"
proof
  fix rt
  show "(\<exists>r. fst (validateExternalApi rt
                   (always (Response 200 (Some (JObj [(''apto'', JObj [(''toString'', JNull)])]))))
                   compare_rule example_athlete 0) = Inr r)
     \<and> (\<exists>res. fst (executeEligibilityCheck rt
                  (always (Response 200 (Some (JObj [(''apto'', JObj [(''toString'', JNull)])]))))
                  example_athlete [compare_rule, status_rule] 0) = Inr res)"
    using engine_never_rejects
      [where rt = rt
         and fetch = "always (Response 200 (Some (JObj [(''apto'', JObj [(''toString'', JNull)])])))"
         and rule = compare_rule and a = example_athlete and w = 0
         and rules = "[compare_rule, status_rule]"]
    by simp
qed

section \<open>Properties of the orchestration\<close>

text \<open>
  C6. A rule with \<open>enabled = false\<close>, or without a \<open>request\<close> or with an empty
  \<open>request.url\<close>, changes neither the verdict, nor the messages, nor the requests made:
  the check of a rule list with such a rule in it is the check of the list without it.
  When every rule of the list is of that kind (the empty list among them), the result is
  exactly \<open>{eligible: true, messages: []}\<close> and no request is made.
\<close>

theorem inactive_rules_never_contribute:
  "((\<not> enabled r \<or> request r = None \<or> (\<exists>rq. request r = Some rq \<and> url rq = [])) \<longrightarrow>
      executeEligibilityCheck rt fetch a (xs @ r # ys) w
        = executeEligibilityCheck rt fetch a (xs @ ys) w)
   \<and> ((\<forall>r \<in> set rules. \<not> enabled r \<or> request r = None
                          \<or> (\<exists>rq. request r = Some rq \<and> url rq = [])) \<longrightarrow>
      executeEligibilityCheck rt fetch a rules w
        = (Inr \<lparr>eligible = True, messages = [], result_extractedData = None\<rparr>, w))"
proof (intro conjI impI)
  assume "\<not> enabled r \<or> request r = None \<or> (\<exists>rq. request r = Some rq \<and> url rq = [])"
  then have "\<not> is_active r" by (auto simp: is_active_def)
  then show "executeEligibilityCheck rt fetch a (xs @ r # ys) w
               = executeEligibilityCheck rt fetch a (xs @ ys) w"
    by (simp add: executeEligibilityCheck_def)
next
  assume "\<forall>r \<in> set rules. \<not> enabled r \<or> request r = None
                          \<or> (\<exists>rq. request r = Some rq \<and> url rq = [])"
  then have "\<forall>r \<in> set rules. \<not> is_active r" by (auto simp: is_active_def)
  then have "filter is_active rules = []" by (simp add: filter_empty_conv)
  then show "executeEligibilityCheck rt fetch a rules w
        = (Inr \<lparr>eligible = True, messages = [], result_extractedData = None\<rparr>, w)"
    by (simp add: executeEligibilityCheck_def)
qed

text \<open>
  Against an environment that answers 404 to every request: a disabled rule in front of an
  active one changes nothing, and three inactive rules alone give the eligible verdict
  with the request counter still at 0.
\<close>

theorem inactive_rules_never_contribute_witness:
  "\<forall>rt. \<not> enabled (status_rule\<lparr>enabled := False\<rparr>)
     \<and> executeEligibilityCheck rt (always (Response 404 None)) example_athlete
          ([] @ status_rule\<lparr>enabled := False\<rparr> # [compare_rule]) 0
       = executeEligibilityCheck rt (always (Response 404 None)) example_athlete
           ([] @ [compare_rule]) 0
     \<and> request (status_rule\<lparr>request := None\<rparr>) = None
     \<and> request (status_rule\<lparr>request := Some (example_request\<lparr>url := []\<rparr>)\<rparr>)
         = Some (example_request\<lparr>url := []\<rparr>)
     \<and> url (example_request\<lparr>url := []\<rparr>) = []
     \<and> executeEligibilityCheck rt (always (Response 404 None)) example_athlete
          [status_rule\<lparr>enabled := False\<rparr>, status_rule\<lparr>request := None\<rparr>,
           status_rule\<lparr>request := Some (example_request\<lparr>url := []\<rparr>)\<rparr>] 0
       = (Inr \<lparr>eligible = True, messages = [], result_extractedData = None\<rparr>, 0)"
proof
  fix rt
  show "\<not> enabled (status_rule\<lparr>enabled := False\<rparr>)
     \<and> executeEligibilityCheck rt (always (Response 404 None)) example_athlete
          ([] @ status_rule\<lparr>enabled := False\<rparr> # [compare_rule]) 0
       = executeEligibilityCheck rt (always (Response 404 None)) example_athlete
           ([] @ [compare_rule]) 0
     \<and> request (status_rule\<lparr>request := None\<rparr>) = None
     \<and> request (status_rule\<lparr>request := Some (example_request\<lparr>url := []\<rparr>)\<rparr>)
         = Some (example_request\<lparr>url := []\<rparr>)
     \<and> url (example_request\<lparr>url := []\<rparr>) = []
     \<and> executeEligibilityCheck rt (always (Response 404 None)) example_athlete
          [status_rule\<lparr>enabled := False\<rparr>, status_rule\<lparr>request := None\<rparr>,
           status_rule\<lparr>request := Some (example_request\<lparr>url := []\<rparr>)\<rparr>] 0
       = (Inr \<lparr>eligible = True, messages = [], result_extractedData = None\<rparr>, 0)"
    using inactive_rules_never_contribute
      [where r = "status_rule\<lparr>enabled := False\<rparr>" and rt = rt
         and fetch = "always (Response 404 None)" and a = example_athlete and xs = "[]"
         and ys = "[compare_rule]" and w = 0
         and rules = "[status_rule\<lparr>enabled := False\<rparr>, status_rule\<lparr>request := None\<rparr>,
                       status_rule\<lparr>request := Some (example_request\<lparr>url := []\<rparr>)\<rparr>]"]
    by (simp add: status_rule_def)
qed

section \<open>The two engines compared\<close>

lemma build_request_svc_eq:
  "auth rq = None \<Longrightarrow> str_or (http_method rq) ''GET'' \<noteq> ''POST'' \<Longrightarrow>
   build_request rt rq a = build_request_svc rt rq a"
  by (simp add: build_request_def build_request_svc_def Let_def applyAuth_def)

lemma interpret_response_svc_eq:
  assumes sf: "(case save_fields rule of None \<Rightarrow> [] | Some fs \<Rightarrow> fs) = []"
    and truthy: "\<And>d. body = Some d \<Longrightarrow> mode (validation rule) = ''json_compare'' \<Longrightarrow>
                   status \<noteq> 404 \<Longrightarrow> status < 500 \<Longrightarrow> js_truthy d"
  shows "(case interpret_response rt rule status body of
            Inl e \<Rightarrow> on_error_result rule | Inr r \<Rightarrow> r)
         = interpret_response_svc rt rule status body"
proof -
  consider (nf) "status = 404" | (srv) "status \<noteq> 404" "status \<ge> 500"
    | (st) "status \<noteq> 404" "status < 500" "mode (validation rule) = ''http_status''"
    | (cmp) "status \<noteq> 404" "status < 500" "mode (validation rule) = ''json_compare''"
    | (other) "status \<noteq> 404" "status < 500" "mode (validation rule) \<noteq> ''http_status''"
        "mode (validation rule) \<noteq> ''json_compare''"
    by force
  then show ?thesis
  proof cases
    case nf
    then show ?thesis by (simp add: interpret_response_def interpret_response_svc_def)
  next
    case srv
    then show ?thesis by (simp add: interpret_response_def interpret_response_svc_def)
  next
    case st
    then show ?thesis using sf by (simp add: interpret_response_def interpret_response_svc_def)
  next
    case cmp
    show ?thesis
    proof (cases body)
      case None
      with cmp show ?thesis using sf
        by (simp add: interpret_response_def interpret_response_svc_def)
    next
      case (Some d)
      with cmp truthy have "js_truthy d" by simp
      with cmp Some show ?thesis using sf
        by (simp add: interpret_response_def interpret_response_svc_def Let_def)
    qed
  next
    case other
    then show ?thesis using sf by (simp add: interpret_response_def interpret_response_svc_def)
  qed
qed

text \<open>
  Without authentication, request body and \<open>save_fields\<close>, the two engines give the same
  answer, unless the mode is \<open>json_compare\<close> and the body parsed to a falsy value.
\<close>

lemma engines_agree:
  assumes "request rule = Some rq" and "auth rq = None"
    and "str_or (http_method rq) ''GET'' \<noteq> ''POST''"
    and "(case save_fields rule of None \<Rightarrow> [] | Some fs \<Rightarrow> fs) = []"
    and "\<And>status d. fst (fetch (build_request rt rq a) w) = Response status (Some d) \<Longrightarrow>
           mode (validation rule) = ''json_compare'' \<Longrightarrow> status \<noteq> 404 \<Longrightarrow> status < 500 \<Longrightarrow>
           js_truthy d"
  shows "validateExternalApi rt fetch rule a w = validateExternalApi_svc rt fetch rule a w"
proof -
  have rq: "build_request_svc rt rq a = build_request rt rq a"
    using assms(2,3) by (simp add: build_request_svc_eq)
  obtain outcome w' where f: "fetch (build_request rt rq a) w = (outcome, w')"
    by (cases "fetch (build_request rt rq a) w")
  show ?thesis
  proof (cases outcome)
    case (Rejected e)
    with f rq assms(1) show ?thesis
      by (simp add: validateExternalApi_def validateExternalApi_try_def
            validateExternalApi_svc_def validateExternalApi_svc_try_def)
  next
    case (Response status body)
    have "(case interpret_response rt rule status body of
             Inl e \<Rightarrow> on_error_result rule | Inr r \<Rightarrow> r)
            = interpret_response_svc rt rule status body"
      using assms(4) assms(5) [of status] f Response
      by (intro interpret_response_svc_eq) simp_all
    with f rq assms(1) Response show ?thesis
      by (simp add: validateExternalApi_def validateExternalApi_try_def
            validateExternalApi_svc_def validateExternalApi_svc_try_def split: sum.splits)
  qed
qed

end
